theory Spec2Isabelle
  imports Complex_Main
begin

section \<open>The 1-D Laplacian example driver (examples/ex_eigs_dseq.c)\<close>

text \<open>
  The file defines two callbacks, \<open>LaplacianMatrixMatvec\<close> and
  \<open>LaplacianApplyPreconditioner\<close>, and a \<open>main\<close> that configures the eigensolver,
  calls it and prints a report. The solver itself (\<open>dprimme\<close>) and the helpers
  \<open>primme_initialize\<close>, \<open>primme_set_method\<close>, \<open>primme_display_params\<close> are declared in
  \<open>primme.h\<close>, which is not among the sources; they are parameters of the model.
\<close>

subsection \<open>Arithmetic on \<open>double\<close>\<close>

text \<open>
  The callbacks compute on \<open>double\<close>. The operations they use are a parameter of the
  model: \<open>lit\<close> reads a constant expression of the source (\<open>0.0\<close>, \<open>-1.0\<close>, \<open>2.0\<close>,
  \<open>2.\<close>, \<open>1e-9\<close>) as a value, \<open>fadd\<close>, \<open>fmul\<close> and \<open>fdiv\<close> are \<open>+\<close>, \<open>*\<close> and \<open>/\<close>.
  Nothing is assumed about them, so whatever holds for every \<open>'a arith\<close> holds for the
  machine's rounding arithmetic bit for bit. \<open>real_arith\<close> is exact arithmetic.
\<close>

record 'a arith =
  lit :: "rat \<Rightarrow> 'a"
  fadd :: "'a \<Rightarrow> 'a \<Rightarrow> 'a"
  fmul :: "'a \<Rightarrow> 'a \<Rightarrow> 'a"
  fdiv :: "'a \<Rightarrow> 'a \<Rightarrow> 'a"

definition real_arith :: "real arith" where
  "real_arith = \<lparr>lit = of_rat, fadd = (+), fmul = (*), fdiv = (/)\<rparr>"

subsection \<open>Memory and the callbacks' state\<close>

text \<open>
  The buffers behind \<open>x\<close> and \<open>y\<close> live in one memory of \<open>double\<close> cells, addressed
  in units of one \<open>double\<close>; a pointer is the address of its first cell, so that
  \<open>(double *)x + *ldx*i\<close> is \<open>x + ldx * i\<close> and overlapping buffers can be expressed.
  \<open>ierr\<close> is the \<open>int\<close> the last argument points to. \<open>PRIMME_INT\<close> is not declared in
  the sources; the dimensions, the leading dimensions and the counters \<open>i\<close> and \<open>row\<close>
  (of type \<open>int\<close> in the source) are mathematical integers, which is what the code
  computes as long as no counter passes the largest \<open>int\<close>.
\<close>

type_synonym 'a heap = "int \<Rightarrow> 'a"

record 'a state =
  mem :: "'a heap"
  ierr :: int

text \<open>The loop \<open>for (i = lo; i < hi; i++) body\<close>, started at \<open>i\<close>.\<close>

function for_loop :: "int \<Rightarrow> int \<Rightarrow> (int \<Rightarrow> 's \<Rightarrow> 's) \<Rightarrow> 's \<Rightarrow> 's" where
  "for_loop i hi body s = (if i < hi then for_loop (i + 1) hi body (body i s) else s)"
  by pat_completeness auto
termination
  by (relation "measure (\<lambda>(i, hi, body, s). nat (hi - i))") auto

declare for_loop.simps [simp del]

subsection \<open>\<open>LaplacianMatrixMatvec\<close>\<close>

text \<open>
  The body of the inner loop (lines 171 to 174): four assignments to \<open>yvec[row]\<close>, each
  reading memory as the previous one left it.
\<close>

definition matvec_row :: "'a arith \<Rightarrow> int \<Rightarrow> int \<Rightarrow> int \<Rightarrow> int \<Rightarrow> 'a heap \<Rightarrow> 'a heap" where
  "matvec_row ar n xvec yvec row h =
     (let h = h(yvec + row := lit ar 0);
          h = (if row - 1 \<ge> 0
               then h(yvec + row :=
                      fadd ar (h (yvec + row)) (fmul ar (lit ar (- 1)) (h (xvec + (row - 1)))))
               else h);
          h = h(yvec + row := fadd ar (h (yvec + row)) (fmul ar (lit ar 2) (h (xvec + row))));
          h = (if row + 1 < n
               then h(yvec + row :=
                      fadd ar (h (yvec + row)) (fmul ar (lit ar (- 1)) (h (xvec + (row + 1)))))
               else h)
      in h)"

text \<open>
  The arguments are those of the source, in its order; \<open>n\<close> stands for \<open>primme->n\<close>, the
  only field of \<open>primme\<close> the callbacks read.
\<close>

definition LaplacianMatrixMatvec ::
  "'a arith \<Rightarrow> int \<Rightarrow> int \<Rightarrow> int \<Rightarrow> int \<Rightarrow> int \<Rightarrow> int \<Rightarrow> 'a state \<Rightarrow> 'a state" where
  "LaplacianMatrixMatvec ar x ldx y ldy blockSize n s =
     \<lparr>mem = for_loop 0 blockSize
              (\<lambda>i h. let xvec = x + ldx * i; yvec = y + ldy * i
                     in for_loop 0 n (matvec_row ar n xvec yvec) h)
              (mem s),
      ierr = 0\<rparr>"

subsection \<open>\<open>LaplacianApplyPreconditioner\<close>\<close>

definition precond_row :: "'a arith \<Rightarrow> int \<Rightarrow> int \<Rightarrow> int \<Rightarrow> 'a heap \<Rightarrow> 'a heap" where
  "precond_row ar xvec yvec row h = h(yvec + row := fdiv ar (h (xvec + row)) (lit ar 2))"

definition LaplacianApplyPreconditioner ::
  "'a arith \<Rightarrow> int \<Rightarrow> int \<Rightarrow> int \<Rightarrow> int \<Rightarrow> int \<Rightarrow> int \<Rightarrow> 'a state \<Rightarrow> 'a state" where
  "LaplacianApplyPreconditioner ar x ldx y ldy blockSize n s =
     \<lparr>mem = for_loop 0 blockSize
              (\<lambda>i h. let xvec = x + ldx * i; yvec = y + ldy * i
                     in for_loop 0 n (precond_row ar xvec yvec) h)
              (mem s),
      ierr = 0\<rparr>"

subsection \<open>Notions the properties of the callbacks are stated with\<close>

text \<open>
  \<open>in_block y ld b n a\<close>: the cell \<open>a\<close> is one of the cells \<open>y[ld*i + row]\<close> with
  \<open>0 \<le> i < b\<close> and \<open>0 \<le> row < n\<close>. \<open>blocks_disjoint\<close>: no cell of the input block
  is a cell of the output block, that is, \<open>x\<close> and \<open>y\<close> are separate buffers.
\<close>

definition in_block :: "int \<Rightarrow> int \<Rightarrow> int \<Rightarrow> int \<Rightarrow> int \<Rightarrow> bool" where
  "in_block y ld b n a = (\<exists>i\<in>{0..<b}. y + ld * i \<le> a \<and> a < y + ld * i + n)"

definition blocks_disjoint :: "int \<Rightarrow> int \<Rightarrow> int \<Rightarrow> int \<Rightarrow> int \<Rightarrow> int \<Rightarrow> bool" where
  "blocks_disjoint x ldx y ldy b n =
     (\<forall>i\<in>{0..<b}. \<forall>row\<in>{0..<n}. \<not> in_block y ldy b n (x + ldx * i + row))"

text \<open>
  What the four assignments of \<open>matvec_row\<close> compute from an input column \<open>X\<close>, in the
  order the source adds the terms.
\<close>

definition stencil :: "'a arith \<Rightarrow> int \<Rightarrow> (int \<Rightarrow> 'a) \<Rightarrow> int \<Rightarrow> 'a" where
  "stencil ar n X row =
     (let v = lit ar 0;
          v = (if row - 1 \<ge> 0 then fadd ar v (fmul ar (lit ar (- 1)) (X (row - 1))) else v);
          v = fadd ar v (fmul ar (lit ar 2) (X row));
          v = (if row + 1 < n then fadd ar v (fmul ar (lit ar (- 1)) (X (row + 1))) else v)
      in v)"

text \<open>
  The matrix of the comment above \<open>LaplacianMatrixMatvec\<close>: 2 on the diagonal, -1 beside
  it; and its product with a column of length \<open>n\<close>.
\<close>

definition laplacian_entry :: "int \<Rightarrow> int \<Rightarrow> real" where
  "laplacian_entry r c = (if r = c then 2 else if r = c + 1 \<or> c = r + 1 then - 1 else 0)"

definition tridiag_apply :: "int \<Rightarrow> (int \<Rightarrow> real) \<Rightarrow> int \<Rightarrow> real" where
  "tridiag_apply n X r = (\<Sum>c = 0..<n. laplacian_entry r c * X c)"

text \<open>
  Calling a callback \<open>b\<close> times with block width 1, on one column after the other, each
  call with the pointers of its column and the same leading dimensions.
\<close>

definition one_at_a_time ::
  "(int \<Rightarrow> int \<Rightarrow> int \<Rightarrow> int \<Rightarrow> int \<Rightarrow> int \<Rightarrow> 'a state \<Rightarrow> 'a state) \<Rightarrow>
   int \<Rightarrow> int \<Rightarrow> int \<Rightarrow> int \<Rightarrow> int \<Rightarrow> int \<Rightarrow> 'a state \<Rightarrow> 'a state" where
  "one_at_a_time f x ldx y ldy b n s =
     for_loop 0 b (\<lambda>i s. f (x + ldx * i) ldx (y + ldy * i) ldy 1 n s) s"

text \<open>
  The operator on vectors of length \<open>n\<close> that one call of \<open>LaplacianMatrixMatvec\<close> applies
  in exact arithmetic: the vector \<open>v\<close> is in the cells \<open>0 .. n-1\<close> (\<open>x = 0\<close>), the output
  column is the cells \<open>n .. 2n-1\<close> (\<open>y = n\<close>), the block width is 1. \<open>inner_prod\<close> is
  the inner product of two vectors of length \<open>n\<close>.
\<close>

definition Laplacian_op :: "int \<Rightarrow> (int \<Rightarrow> real) \<Rightarrow> int \<Rightarrow> real" where
  "Laplacian_op n v row =
     mem (LaplacianMatrixMatvec real_arith 0 n n n 1 n \<lparr>mem = v, ierr = 0\<rparr>) (n + row)"

definition inner_prod :: "int \<Rightarrow> (int \<Rightarrow> real) \<Rightarrow> (int \<Rightarrow> real) \<Rightarrow> real" where
  "inner_prod n u v = (\<Sum>r = 0..<n. u r * v r)"

subsection \<open>The driver \<open>main\<close>: the configuration structure\<close>

text \<open>
  Modelled from the spec: the enumeration of target criteria. \<open>primme.h\<close>, which declares
  it, is not among the sources; \<open>main\<close> names \<open>primme_smallest\<close> only, the other three
  are the criteria the specification lists (largest, closest to a shift, interior).
\<close>

datatype primme_target =
  primme_smallest | primme_largest | primme_closest_to_shift | primme_interior

text \<open>The presets \<open>main\<close> and its comments name.\<close>

datatype primme_preset_method =
  PRIMME_DYNAMIC | PRIMME_DEFAULT_MIN_TIME | PRIMME_DEFAULT_MIN_MATVECS
  | PRIMME_LOBPCG_OrthoBasis_Window

text \<open>The two function pointers \<open>main\<close> stores; a null pointer is \<open>None\<close>.\<close>

datatype callback = LaplacianMatrixMatvec_ptr | LaplacianApplyPreconditioner_ptr

text \<open>
  The fields of \<open>primme_params\<close> that \<open>main\<close> reads or writes. The field \<open>n\<close> is
  \<open>primme_n\<close> here, \<open>correctionParams.precondition\<close> is \<open>precondition\<close>. \<open>intWork\<close>
  points to an array of \<open>int\<close>, given by its contents, or is null. \<open>eps\<close> and \<open>aNorm\<close>
  are \<open>double\<close>.
\<close>

record primme_stats =
  numOuterIterations :: int
  numRestarts :: int
  numMatvecs :: int
  numPreconds :: int

record 'a primme_params =
  primme_n :: int
  matrixMatvec :: "callback option"
  applyPreconditioner :: "callback option"
  numEvals :: int
  target :: primme_target
  eps :: 'a
  precondition :: int
  initSize :: int
  aNorm :: 'a
  stats :: primme_stats
  locking :: int
  intWork :: "(int \<Rightarrow> int) option"
  dynamicMethodSwitch :: int

text \<open>
  What the call \<open>ret = dprimme(evals, evecs, rnorms, &primme)\<close> leaves behind: the
  returned status, the three arrays (by index) and the updated structure.
\<close>

record 'a solve =
  ret :: int
  evals :: "int \<Rightarrow> 'a"
  evecs :: "int \<Rightarrow> 'a"
  rnorms :: "int \<Rightarrow> 'a"
  primme_out :: "'a primme_params"

text \<open>
  The functions of the library that \<open>main\<close> calls and the sources do not contain.
  \<open>primme_initialize\<close> fills the structure with its defaults, \<open>primme_set_method\<close>
  updates it for a preset (its returned status is ignored by \<open>main\<close>), \<open>dprimme\<close> is
  the solver.
\<close>

record 'a extern =
  primme_initialize :: "'a primme_params"
  primme_set_method :: "primme_preset_method \<Rightarrow> 'a primme_params \<Rightarrow> 'a primme_params"
  dprimme :: "'a primme_params \<Rightarrow> 'a solve"

text \<open>
  What \<open>main\<close> writes to \<open>primme.outputFile\<close>, one event for each \<open>fprintf\<close> with its
  arguments; a \<open>Message\<close> is an \<open>fprintf\<close> of fixed text, given without its line
  breaks. \<open>DisplayParams\<close> stands for the output of \<open>primme_display_params\<close>.
\<close>

datatype 'a event =
    DisplayParams "'a primme_params"
  | ErrorLine int
  | EvalLine int 'a 'a
  | ConvergedLine int
  | ToleranceLine 'a
  | IterationsLine int
  | RestartsLine int
  | MatvecsLine int
  | PrecondsLine int
  | Message string

text \<open>A run of \<open>main\<close>: what it printed and the value it returned.\<close>

record 'a run =
  printed :: "'a event list"
  exit_code :: int

subsection \<open>The driver \<open>main\<close>\<close>

text \<open>
  Lines 61 to 77: the defaults, then the assignments of \<open>main\<close>. Line 88 sets the
  method; \<open>main_setup\<close> is the structure as it stands when \<open>dprimme\<close> is called.
\<close>

definition main_config :: "'a arith \<Rightarrow> 'a extern \<Rightarrow> 'a primme_params" where
  "main_config ar ext =
     (primme_initialize ext)
       \<lparr>matrixMatvec := Some LaplacianMatrixMatvec_ptr,
        primme_n := 100,
        numEvals := 10,
        eps := lit ar (1 / 10 ^ 9),
        target := primme_smallest,
        applyPreconditioner := Some LaplacianApplyPreconditioner_ptr,
        precondition := 1\<rparr>"

definition main_setup :: "'a arith \<Rightarrow> 'a extern \<Rightarrow> 'a primme_params" where
  "main_setup ar ext = primme_set_method ext PRIMME_DYNAMIC (main_config ar ext)"

text \<open>The three lines printed at lines 124 to 128.\<close>

definition locking_problem :: "'a event list" where
  "locking_problem =
     [Message ''A locking problem has occurred.'',
      Message ''Some eigenpairs do not have a residual norm less than the tolerance.'',
      Message ''However, the subspace of evecs is accurate to the required tolerance.'']"

text \<open>Lines 111 to 138: the report after a solve that returned 0.\<close>

definition main_report :: "'a arith \<Rightarrow> 'a solve \<Rightarrow> 'a event list \<Rightarrow> 'a event list" where
  "main_report ar r out =
     (let primme = primme_out r;
          out = for_loop 0 (initSize primme)
                  (\<lambda>i out. out @ [EvalLine (i + 1) (evals r i) (rnorms r i)]) out;
          out = out @ [ConvergedLine (initSize primme)];
          out = out @ [ToleranceLine (fmul ar (aNorm primme) (eps primme))];
          out = out @ [IterationsLine (numOuterIterations (stats primme))];
          out = out @ [RestartsLine (numRestarts (stats primme))];
          out = out @ [MatvecsLine (numMatvecs (stats primme))];
          out = out @ [PrecondsLine (numPreconds (stats primme))];
          out = (if locking primme \<noteq> 0 \<and> (case intWork primme of None \<Rightarrow> False | Some w \<Rightarrow> w 0 = 1)
                 then out @ locking_problem else out);
          out = (if dynamicMethodSwitch primme = - 1
                   then out @ [Message ''Recommended method for next run: DEFAULT_MIN_MATVECS'']
                 else if dynamicMethodSwitch primme = - 2
                   then out @ [Message ''Recommended method for next run: DEFAULT_MIN_TIME'']
                 else if dynamicMethodSwitch primme = - 3
                   then out @ [Message ''Recommended method for next run: DYNAMIC (close call)'']
                 else out)
      in out)"

text \<open>
  \<open>main\<close> itself. The arrays are allocated between the display and the call of the
  solver; the frees at the end print nothing.
\<close>

definition main :: "'a arith \<Rightarrow> 'a extern \<Rightarrow> 'a run" where
  "main ar ext =
     (let primme = main_setup ar ext;
          out = [DisplayParams primme];
          r = dprimme ext primme
      in if ret r \<noteq> 0
         then \<lparr>printed = out @ [ErrorLine (ret r)], exit_code = - 1\<rparr>
         else \<lparr>printed = main_report ar r out, exit_code = 0\<rparr>)"

subsection \<open>Notions the properties of the driver are stated with\<close>

text \<open>
  A recommendation is a line that starts with \<open>Recommended method for next run:\<close>; an
  eigenpair line is one of the lines \<open>Eval[i]: ... rnorm: ...\<close>.
\<close>

definition is_recommendation :: "'a event \<Rightarrow> bool" where
  "is_recommendation e =
     (case e of Message t \<Rightarrow> take 33 t = ''Recommended method for next run: '' | _ \<Rightarrow> False)"

definition is_eval_line :: "'a event \<Rightarrow> bool" where
  "is_eval_line e = (case e of EvalLine i v r \<Rightarrow> True | _ \<Rightarrow> False)"

text \<open>The line the \<open>switch\<close> at line 131 prints for a value, if any.\<close>

definition recommendation :: "int \<Rightarrow> 'a event list" where
  "recommendation v =
     (if v = - 1 then [Message ''Recommended method for next run: DEFAULT_MIN_MATVECS'']
      else if v = - 2 then [Message ''Recommended method for next run: DEFAULT_MIN_TIME'']
      else if v = - 3 then [Message ''Recommended method for next run: DYNAMIC (close call)'']
      else [])"

text \<open>
  The condition of line 123 in words: locking is enabled, the integer workspace pointer
  is not null, and the first slot of the workspace is 1.
\<close>

definition locking_flagged :: "'a primme_params \<Rightarrow> bool" where
  "locking_flagged p \<longleftrightarrow> locking p \<noteq> 0 \<and> intWork p \<noteq> None \<and> the (intWork p) 0 = 1"

subsection \<open>Concrete inputs\<close>

text \<open>
  A memory with a block of two input columns of length 3 at \<open>x = 0\<close> (\<open>ldx = 3\<close>); the
  output block is placed at \<open>y = 6\<close> with \<open>ldy = 4\<close>, so that each output column is
  followed by one cell of padding.
\<close>

definition example_heap :: "real heap" where
  "example_heap = (\<lambda>a. 0)(0 := 1, 1 := 3, 2 := 10, 3 := 2, 4 := 5, 5 := 11)"

definition example_state :: "real state" where
  "example_state = \<lparr>mem = example_heap, ierr = 1\<rparr>"

definition example_vec :: "int \<Rightarrow> real" where
  "example_vec = (\<lambda>a. 0)(0 := 2, 1 := - 1, 2 := 4)"

text \<open>
  A library whose solver converges (two eigenpairs, the locking flag raised, the value -1
  as recommendation) and one whose solver stops with status -3 after one eigenpair.
\<close>

definition default_params :: "real primme_params" where
  "default_params =
     \<lparr>primme_n = 0, matrixMatvec = None, applyPreconditioner = None, numEvals = 1,
      target = primme_largest, eps = 0, precondition = 0, initSize = 0, aNorm = 0,
      stats = \<lparr>numOuterIterations = 0, numRestarts = 0, numMatvecs = 0, numPreconds = 0\<rparr>,
      locking = 0, intWork = None, dynamicMethodSwitch = 0\<rparr>"

definition solved :: "real primme_params \<Rightarrow> real solve" where
  "solved p =
     \<lparr>ret = 0,
      evals = (\<lambda>i. if i = 0 then 1 / 1000 else if i = 1 then 4 / 1000 else 0),
      evecs = (\<lambda>i. 0),
      rnorms = (\<lambda>i. 1 / 10 ^ 10),
      primme_out = p\<lparr>initSize := 2, aNorm := 4,
        stats := \<lparr>numOuterIterations = 50, numRestarts = 3, numMatvecs = 120, numPreconds = 100\<rparr>,
        locking := 1, intWork := Some (\<lambda>i. if i = 0 then 1 else 0),
        dynamicMethodSwitch := - 1\<rparr>\<rparr>"

definition exhausted :: "real primme_params \<Rightarrow> real solve" where
  "exhausted p =
     \<lparr>ret = - 3,
      evals = (\<lambda>i. if i = 0 then 1 / 1000 else 0),
      evecs = (\<lambda>i. 0),
      rnorms = (\<lambda>i. 1 / 10 ^ 10),
      primme_out = p\<lparr>initSize := 1, aNorm := 4,
        stats := \<lparr>numOuterIterations = 10, numRestarts = 1, numMatvecs = 20, numPreconds = 15\<rparr>,
        locking := 1, intWork := Some (\<lambda>i. 0),
        dynamicMethodSwitch := - 1\<rparr>\<rparr>"

definition set_method_example :: "primme_preset_method \<Rightarrow> real primme_params \<Rightarrow> real primme_params" where
  "set_method_example m p = p\<lparr>dynamicMethodSwitch := (if m = PRIMME_DYNAMIC then 1 else 0)\<rparr>"

definition ext_solved :: "real extern" where
  "ext_solved = \<lparr>primme_initialize = default_params, primme_set_method = set_method_example,
                 dprimme = solved\<rparr>"

definition ext_exhausted :: "real extern" where
  "ext_exhausted = \<lparr>primme_initialize = default_params, primme_set_method = set_method_example,
                    dprimme = exhausted\<rparr>"

text \<open>
  A library whose solver answers with status 1 when the structure it receives has
  \<open>n = 100\<close>, \<open>numEvals = 10\<close>, \<open>eps\<close> the value of \<open>1e-9\<close> and the target
  \<open>primme_smallest\<close>, and with status 2 otherwise.
\<close>

definition probe :: "real primme_params \<Rightarrow> real solve" where
  "probe p =
     \<lparr>ret = (if primme_n p = 100 \<and> numEvals p = 10 \<and> eps p = 1 / 10 ^ 9 \<and> target p = primme_smallest
             then 1 else 2),
      evals = (\<lambda>i. 0), evecs = (\<lambda>i. 0), rnorms = (\<lambda>i. 0), primme_out = p\<rparr>"

definition ext_probe :: "real extern" where
  "ext_probe = \<lparr>primme_initialize = default_params, primme_set_method = set_method_example,
                dprimme = probe\<rparr>"

section \<open>Loops\<close>

lemma for_loop_step: "i < hi \<Longrightarrow> for_loop i hi body s = for_loop (i + 1) hi body (body i s)"
  by (subst for_loop.simps) simp

lemma for_loop_done: "\<not> i < hi \<Longrightarrow> for_loop i hi body s = s"
  by (subst for_loop.simps) simp

lemma for_loop_invariant:
  assumes "P i s"
    and "\<And>j t. i \<le> j \<Longrightarrow> j < hi \<Longrightarrow> P j t \<Longrightarrow> P (j + 1) (body j t)"
  shows "P (max i hi) (for_loop i hi body s)"
  using assms
proof (induction i hi body s rule: for_loop.induct)
  case (1 i hi body s)
  show ?case
  proof (cases "i < hi")
    case True
    have "P (max (i + 1) hi) (for_loop (i + 1) hi body (body i s))"
    proof (rule "1.IH" [OF True])
      show "P (i + 1) (body i s)" using "1.prems" True by simp
    next
      fix j t assume "i + 1 \<le> j" "j < hi" "P j t"
      then show "P (j + 1) (body j t)" using "1.prems"(2) by simp
    qed
    moreover have "max (i + 1) hi = max i hi" using True by simp
    ultimately show ?thesis using True by (simp add: for_loop_step)
  next
    case False
    then show ?thesis using "1.prems"(1) by (simp add: for_loop_done max_def)
  qed
qed

text \<open>A cell that no iteration of the body changes keeps its value.\<close>

lemma for_loop_frame:
  assumes "\<And>j (t::'a heap). i \<le> j \<Longrightarrow> j < hi \<Longrightarrow> body j t a = t a"
  shows "for_loop i hi body h a = h a"
proof -
  have "(\<lambda>j t. t a = h a) (max i hi) (for_loop i hi body h)"
    by (rule for_loop_invariant [where P = "\<lambda>j t. t a = h a"]) (simp_all add: assms)
  then show ?thesis .
qed

lemma for_loop_map:
  assumes "\<And>j t. i \<le> j \<Longrightarrow> j < hi \<Longrightarrow> f (body j t) = body' j (f t)"
  shows "f (for_loop i hi body s) = for_loop i hi body' (f s)"
  using assms
proof (induction i hi body s rule: for_loop.induct)
  case (1 i hi body s)
  show ?case
  proof (cases "i < hi")
    case True
    have "f (for_loop (i + 1) hi body (body i s)) = for_loop (i + 1) hi body' (f (body i s))"
      by (rule "1.IH" [OF True]) (simp add: "1.prems")
    then show ?thesis using True "1.prems" [of i s] by (simp add: for_loop_step)
  next
    case False
    then show ?thesis by (simp add: for_loop_done)
  qed
qed

lemma for_loop_once: "for_loop 0 1 body s = body 0 s"
  by (simp add: for_loop_step for_loop_done)

lemma for_loop_append:
  "for_loop i hi (\<lambda>i out. out @ [f i]) out = out @ map f [i..hi - 1]"
proof (induction i hi "\<lambda>i out. out @ [f i]" out rule: for_loop.induct)
  case (1 i hi out)
  show ?case
  proof (cases "i < hi")
    case True
    then have "[i..hi - 1] = i # [i + 1..hi - 1]" by (simp add: upto_rec1)
    then show ?thesis using True "1.hyps" [OF True] by (simp add: for_loop_step)
  next
    case False
    then show ?thesis by (simp add: for_loop_done)
  qed
qed

section \<open>The callbacks\<close>

subsection \<open>One row, one column, one block\<close>

lemma matvec_row_other: "a \<noteq> yvec + row \<Longrightarrow> matvec_row ar n xvec yvec row h a = h a"
  by (simp add: matvec_row_def Let_def)

lemma precond_row_other: "a \<noteq> yvec + row \<Longrightarrow> precond_row ar xvec yvec row h a = h a"
  by (simp add: precond_row_def)

lemma matvec_row_value:
  assumes "0 \<le> row" "row < n" "\<forall>r. 0 \<le> r \<and> r < n \<longrightarrow> xvec + r \<noteq> yvec + row"
  shows "matvec_row ar n xvec yvec row h (yvec + row) = stencil ar n (\<lambda>r. h (xvec + r)) row"
proof -
  have a: "xvec + row \<noteq> yvec + row" using assms by blast
  have b: "0 \<le> row - 1 \<Longrightarrow> xvec + (row - 1) \<noteq> yvec + row" using assms by simp
  have c: "row + 1 < n \<Longrightarrow> xvec + (row + 1) \<noteq> yvec + row" using assms by simp
  show ?thesis
    using a b c by (simp add: matvec_row_def stencil_def Let_def)
qed


lemma in_block_iff:
  "in_block y ld b n a \<longleftrightarrow> (\<exists>i. 0 \<le> i \<and> i < b \<and> y + ld * i \<le> a \<and> a < y + ld * i + n)"
  by (auto simp: in_block_def)

lemma in_block_cell: "0 \<le> i \<Longrightarrow> i < b \<Longrightarrow> 0 \<le> r \<Longrightarrow> r < n \<Longrightarrow> in_block y ld b n (y + ld * i + r)"
  unfolding in_block_iff by (rule exI [of _ i]) simp

lemma in_block_mono: "in_block y ld j n a \<Longrightarrow> j \<le> b \<Longrightarrow> in_block y ld b n a"
  unfolding in_block_iff by force

lemma in_block_Suc:
  "0 \<le> j \<Longrightarrow> in_block y ld (j + 1) n a \<longleftrightarrow> in_block y ld j n a \<or> (y + ld * j \<le> a \<and> a < y + ld * j + n)"
proof
  assume j: "0 \<le> j" and "in_block y ld (j + 1) n a"
  then obtain i where i: "0 \<le> i" "i < j + 1" "y + ld * i \<le> a" "a < y + ld * i + n"
    unfolding in_block_iff by blast
  show "in_block y ld j n a \<or> (y + ld * j \<le> a \<and> a < y + ld * j + n)"
  proof (cases "i = j")
    case True
    then show ?thesis using i by simp
  next
    case False
    then have "i < j" using i by simp
    then show ?thesis using i unfolding in_block_iff by blast
  qed
next
  assume j: "0 \<le> j" and d: "in_block y ld j n a \<or> (y + ld * j \<le> a \<and> a < y + ld * j + n)"
  from d show "in_block y ld (j + 1) n a"
  proof
    assume "in_block y ld j n a"
    then show ?thesis by (rule in_block_mono) simp
  next
    assume "y + ld * j \<le> a \<and> a < y + ld * j + n"
    then show ?thesis using j unfolding in_block_iff by (intro exI [of _ j]) simp
  qed
qed

lemma earlier_column_below:
  fixes ld :: int
  assumes "n \<le> ld" "0 \<le> r" "r < n" "i < j"
  shows "y + ld * i + r < y + ld * j"
proof -
  have "0 \<le> ld" using assms by simp
  then have "ld * (i + 1) \<le> ld * j" using assms by (intro mult_left_mono) simp_all
  then have "ld * i + ld \<le> ld * j" by (simp add: algebra_simps)
  then show ?thesis using assms by linarith
qed

lemma rows_frame:
  assumes frame: "\<And>r (t::'a heap) a. a \<noteq> yv + r \<Longrightarrow> body r t a = t a"
    and "\<not> (yv \<le> a \<and> a < yv + n)"
  shows "for_loop 0 n body h a = h a"
proof (rule for_loop_frame)
  fix j :: int and t :: "'a heap"
  assume "0 \<le> j" "j < n"
  then have "a \<noteq> yv + j" using assms(2) by auto
  then show "body j t a = t a" by (rule frame)
qed

lemma rows_value:
  assumes frame: "\<And>r (t::'a heap) a. a \<noteq> yv + r \<Longrightarrow> body r t a = t a"
    and val: "\<And>r t. 0 \<le> r \<Longrightarrow> r < n \<Longrightarrow> body r t (yv + r) = g (\<lambda>r'. t (xv + r')) r"
    and cong: "\<And>X X' r. 0 \<le> r \<Longrightarrow> r < n \<Longrightarrow> (\<forall>r'. 0 \<le> r' \<and> r' < n \<longrightarrow> X r' = X' r') \<Longrightarrow> g X r = g X' r"
    and disj: "\<forall>r r'. 0 \<le> r \<and> r < n \<and> 0 \<le> r' \<and> r' < n \<longrightarrow> xv + r \<noteq> yv + r'"
    and r: "0 \<le> r" "r < n"
  shows "for_loop 0 n body h (yv + r) = g (\<lambda>r'. h (xv + r')) r"
proof -
  let ?P = "\<lambda>j t. (\<forall>a. \<not> (yv \<le> a \<and> a < yv + j) \<longrightarrow> t a = h a) \<and>
                   (\<forall>r. 0 \<le> r \<and> r < j \<longrightarrow> t (yv + r) = g (\<lambda>r'. h (xv + r')) r)"
  have "?P (max 0 n) (for_loop 0 n body h)"
  proof (rule for_loop_invariant [where P = ?P])
    show "?P 0 h" by auto
  next
    fix j t
    assume j: "0 \<le> j" "j < n" and P: "?P j t"
    have out: "\<And>a. \<not> (yv \<le> a \<and> a < yv + (j + 1)) \<Longrightarrow> body j t a = h a"
    proof -
      fix a assume a: "\<not> (yv \<le> a \<and> a < yv + (j + 1))"
      then have "a \<noteq> yv + j" using j by auto
      then have "body j t a = t a" by (rule frame)
      moreover have "\<not> (yv \<le> a \<and> a < yv + j)" using a by auto
      ultimately show "body j t a = h a" using P by simp
    qed
    have inp: "\<forall>r'. 0 \<le> r' \<and> r' < n \<longrightarrow> t (xv + r') = h (xv + r')"
    proof (intro allI impI)
      fix r' assume r': "0 \<le> r' \<and> r' < n"
      have "\<not> (yv \<le> xv + r' \<and> xv + r' < yv + j)"
      proof
        assume c: "yv \<le> xv + r' \<and> xv + r' < yv + j"
        define q where "q = xv + r' - yv"
        have "0 \<le> q" "q < n" "xv + r' = yv + q" using c j by (simp_all add: q_def)
        then show False using disj r' by blast
      qed
      then show "t (xv + r') = h (xv + r')" using P by simp
    qed
    have new: "body j t (yv + j) = g (\<lambda>r'. h (xv + r')) j"
    proof -
      have "body j t (yv + j) = g (\<lambda>r'. t (xv + r')) j" using j by (rule val)
      also have "\<dots> = g (\<lambda>r'. h (xv + r')) j" using j inp by (intro cong) simp_all
      finally show ?thesis .
    qed
    have old: "\<And>r. 0 \<le> r \<Longrightarrow> r < j \<Longrightarrow> body j t (yv + r) = g (\<lambda>r'. h (xv + r')) r"
    proof -
      fix r assume r: "0 \<le> r" "r < j"
      then have "yv + r \<noteq> yv + j" by simp
      then have "body j t (yv + r) = t (yv + r)" by (rule frame)
      then show "body j t (yv + r) = g (\<lambda>r'. h (xv + r')) r" using P r by simp
    qed
    show "?P (j + 1) (body j t)"
    proof (intro conjI allI impI)
      fix a assume "\<not> (yv \<le> a \<and> a < yv + (j + 1))"
      then show "body j t a = h a" by (rule out)
    next
      fix r assume r: "0 \<le> r \<and> r < j + 1"
      show "body j t (yv + r) = g (\<lambda>r'. h (xv + r')) r"
      proof (cases "r = j")
        case True
        then show ?thesis using new by simp
      next
        case False
        then show ?thesis using r old by simp
      qed
    qed
  qed
  moreover have "max 0 n = n" using r by simp
  ultimately show ?thesis using r by simp
qed


lemma block_frame:
  assumes frame: "\<And>xv yv r (t::'a heap) a. a \<noteq> yv + r \<Longrightarrow> body xv yv r t a = t a"
    and out: "\<not> in_block y ldy b n a"
  shows "for_loop 0 b (\<lambda>i h. for_loop 0 n (body (x + ldx * i) (y + ldy * i)) h) h0 a = h0 a"
proof (rule for_loop_frame)
  fix j :: int and t :: "'a heap"
  assume j: "0 \<le> j" "j < b"
  have "\<not> (y + ldy * j \<le> a \<and> a < y + ldy * j + n)"
    using out j unfolding in_block_iff by blast
  then show "for_loop 0 n (body (x + ldx * j) (y + ldy * j)) t a = t a"
    by (intro rows_frame frame)
qed

lemma block_value:
  assumes frame: "\<And>xv yv r (t::'a heap) a. a \<noteq> yv + r \<Longrightarrow> body xv yv r t a = t a"
    and val: "\<And>xv yv r t. 0 \<le> r \<Longrightarrow> r < n \<Longrightarrow> (\<forall>r'. 0 \<le> r' \<and> r' < n \<longrightarrow> xv + r' \<noteq> yv + r) \<Longrightarrow>
                body xv yv r t (yv + r) = g (\<lambda>r'. t (xv + r')) r"
    and cong: "\<And>X X' r. 0 \<le> r \<Longrightarrow> r < n \<Longrightarrow> (\<forall>r'. 0 \<le> r' \<and> r' < n \<longrightarrow> X r' = X' r') \<Longrightarrow> g X r = g X' r"
    and ld: "n \<le> ldy"
    and disj: "blocks_disjoint x ldx y ldy b n"
    and i: "0 \<le> i" "i < b" and r: "0 \<le> r" "r < n"
  shows "for_loop 0 b (\<lambda>i h. for_loop 0 n (body (x + ldx * i) (y + ldy * i)) h) h0 (y + ldy * i + r)
         = g (\<lambda>r'. h0 (x + ldx * i + r')) r"
proof -
  let ?col = "\<lambda>i h. for_loop 0 n (body (x + ldx * i) (y + ldy * i)) h"
  let ?Q = "\<lambda>j t. (\<forall>a. \<not> in_block y ldy j n a \<longrightarrow> t a = h0 a) \<and>
                   (\<forall>i r. 0 \<le> i \<and> i < j \<and> 0 \<le> r \<and> r < n \<longrightarrow>
                      t (y + ldy * i + r) = g (\<lambda>r'. h0 (x + ldx * i + r')) r)"
  have xcell: "\<And>j r'. 0 \<le> j \<Longrightarrow> j < b \<Longrightarrow> 0 \<le> r' \<Longrightarrow> r' < n \<Longrightarrow> \<not> in_block y ldy b n (x + ldx * j + r')"
    using disj by (simp add: blocks_disjoint_def)
  have "?Q (max 0 b) (for_loop 0 b ?col h0)"
  proof (rule for_loop_invariant [where P = ?Q])
    show "?Q 0 h0" by auto
  next
    fix j t
    assume j: "0 \<le> j" "j < b" and Q: "?Q j t"
    let ?xv = "x + ldx * j" and ?yv = "y + ldy * j"
    have fr: "\<And>r t a. a \<noteq> ?yv + r \<Longrightarrow> body ?xv ?yv r t a = t a" by (rule frame)
    have cd: "\<forall>r r'. 0 \<le> r \<and> r < n \<and> 0 \<le> r' \<and> r' < n \<longrightarrow> ?xv + r \<noteq> ?yv + r'"
    proof (intro allI impI)
      fix r r' assume rr: "0 \<le> r \<and> r < n \<and> 0 \<le> r' \<and> r' < n"
      have "in_block y ldy b n (?yv + r')" using j rr by (intro in_block_cell) simp_all
      moreover have "\<not> in_block y ldy b n (?xv + r)" using j rr by (intro xcell) simp_all
      ultimately show "?xv + r \<noteq> ?yv + r'" by metis
    qed
    have vl: "\<And>r t. 0 \<le> r \<Longrightarrow> r < n \<Longrightarrow> body ?xv ?yv r t (?yv + r) = g (\<lambda>r'. t (?xv + r')) r"
    proof -
      fix r t assume r: "0 \<le> r" "r < n"
      have "\<forall>r'. 0 \<le> r' \<and> r' < n \<longrightarrow> ?xv + r' \<noteq> ?yv + r" using cd r by blast
      with r show "body ?xv ?yv r t (?yv + r) = g (\<lambda>r'. t (?xv + r')) r" by (rule val)
    qed
    have inp: "\<forall>r'. 0 \<le> r' \<and> r' < n \<longrightarrow> t (?xv + r') = h0 (?xv + r')"
    proof (intro allI impI)
      fix r' assume r': "0 \<le> r' \<and> r' < n"
      have "\<not> in_block y ldy b n (?xv + r')" using j r' by (intro xcell) simp_all
      then have "\<not> in_block y ldy j n (?xv + r')" using in_block_mono [of y ldy j n _ b] j by auto
      then show "t (?xv + r') = h0 (?xv + r')" using Q by simp
    qed
    show "?Q (j + 1) (?col j t)"
    proof (intro conjI allI impI)
      fix a assume a: "\<not> in_block y ldy (j + 1) n a"
      then have a1: "\<not> in_block y ldy j n a" and a2: "\<not> (?yv \<le> a \<and> a < ?yv + n)"
        using in_block_Suc [OF j(1), of y ldy n a] by auto
      have "?col j t a = t a" using fr a2 by (rule rows_frame)
      then show "?col j t a = h0 a" using Q a1 by simp
    next
      fix i r assume ir: "0 \<le> i \<and> i < j + 1 \<and> 0 \<le> r \<and> r < n"
      show "?col j t (y + ldy * i + r) = g (\<lambda>r'. h0 (x + ldx * i + r')) r"
      proof (cases "i = j")
        case True
        have "?col j t (?yv + r) = g (\<lambda>r'. t (?xv + r')) r"
          using fr vl cong cd ir by (intro rows_value [where g = g]) auto
        also have "\<dots> = g (\<lambda>r'. h0 (?xv + r')) r" using ir inp by (intro cong) simp_all
        finally show ?thesis using True by simp
      next
        case False
        then have lt: "i < j" using ir by simp
        have "y + ldy * i + r < ?yv" using earlier_column_below [of n ldy r i j y] ld ir lt by blast
        then have "\<not> (?yv \<le> y + ldy * i + r \<and> y + ldy * i + r < ?yv + n)" by simp
        with fr have "?col j t (y + ldy * i + r) = t (y + ldy * i + r)" by (rule rows_frame)
        then show ?thesis using Q ir lt by simp
      qed
    qed
  qed
  moreover have "max 0 b = b" using i by simp
  ultimately show ?thesis using i r by simp
qed

lemma stencil_cong:
  assumes "0 \<le> r" "r < n" "\<forall>r'. 0 \<le> r' \<and> r' < n \<longrightarrow> X r' = X' r'"
  shows "stencil ar n X r = stencil ar n X' r"
  using assms by (simp add: stencil_def Let_def)

lemma stencil_real:
  "stencil real_arith n X r =
     (if 0 < r then - X (r - 1) else 0) + 2 * X r + (if r + 1 < n then - X (r + 1) else 0)"
  by (simp add: stencil_def real_arith_def Let_def)


lemma matvec_frame:
  assumes "\<not> in_block y ldy b n a"
  shows "mem (LaplacianMatrixMatvec ar x ldx y ldy b n s) a = mem s a"
  unfolding LaplacianMatrixMatvec_def Let_def
  using assms by (simp add: block_frame [where body = "matvec_row ar n"] matvec_row_other)

lemma precond_frame:
  assumes "\<not> in_block y ldy b n a"
  shows "mem (LaplacianApplyPreconditioner ar x ldx y ldy b n s) a = mem s a"
  unfolding LaplacianApplyPreconditioner_def Let_def
  using assms by (simp add: block_frame [where body = "precond_row ar"] precond_row_other)

lemma matvec_cell:
  assumes "blocks_disjoint x ldx y ldy b n" "n \<le> ldy" "0 \<le> i" "i < b" "0 \<le> row" "row < n"
  shows "mem (LaplacianMatrixMatvec ar x ldx y ldy b n s) (y + ldy * i + row) =
         stencil ar n (\<lambda>c. mem s (x + ldx * i + c)) row"
proof -
  have "for_loop 0 b (\<lambda>i h. for_loop 0 n (matvec_row ar n (x + ldx * i) (y + ldy * i)) h) (mem s)
          (y + ldy * i + row) = stencil ar n (\<lambda>c. mem s (x + ldx * i + c)) row"
  proof (rule block_value [where g = "stencil ar n"])
    show "\<And>xv yv r t a. a \<noteq> yv + r \<Longrightarrow> matvec_row ar n xv yv r t a = t a"
      by (rule matvec_row_other)
  next
    show "\<And>xv yv r t. 0 \<le> r \<Longrightarrow> r < n \<Longrightarrow> \<forall>r'. 0 \<le> r' \<and> r' < n \<longrightarrow> xv + r' \<noteq> yv + r \<Longrightarrow>
            matvec_row ar n xv yv r t (yv + r) = stencil ar n (\<lambda>r'. t (xv + r')) r"
      by (rule matvec_row_value)
  next
    show "\<And>X X' r. 0 \<le> r \<Longrightarrow> r < n \<Longrightarrow> \<forall>r'. 0 \<le> r' \<and> r' < n \<longrightarrow> X r' = X' r' \<Longrightarrow>
            stencil ar n X r = stencil ar n X' r"
      by (rule stencil_cong)
  qed (use assms in simp_all)
  then show ?thesis by (simp add: LaplacianMatrixMatvec_def Let_def)
qed

lemma precond_cell:
  assumes "blocks_disjoint x ldx y ldy b n" "n \<le> ldy" "0 \<le> i" "i < b" "0 \<le> row" "row < n"
  shows "mem (LaplacianApplyPreconditioner ar x ldx y ldy b n s) (y + ldy * i + row) =
         fdiv ar (mem s (x + ldx * i + row)) (lit ar 2)"
proof -
  have "for_loop 0 b (\<lambda>i h. for_loop 0 n (precond_row ar (x + ldx * i) (y + ldy * i)) h) (mem s)
          (y + ldy * i + row) = (\<lambda>X r. fdiv ar (X r) (lit ar 2)) (\<lambda>c. mem s (x + ldx * i + c)) row"
  proof (rule block_value [where g = "\<lambda>X r. fdiv ar (X r) (lit ar 2)"])
    show "\<And>xv yv r t a. a \<noteq> yv + r \<Longrightarrow> precond_row ar xv yv r t a = t a"
      by (rule precond_row_other)
  next
    show "\<And>xv yv r t. 0 \<le> r \<Longrightarrow> r < n \<Longrightarrow> \<forall>r'. 0 \<le> r' \<and> r' < n \<longrightarrow> xv + r' \<noteq> yv + r \<Longrightarrow>
            precond_row ar xv yv r t (yv + r) = fdiv ar (t (xv + r)) (lit ar 2)"
      by (simp add: precond_row_def)
  qed (use assms in simp_all)
  then show ?thesis by (simp add: LaplacianApplyPreconditioner_def Let_def)
qed

lemma tridiag_apply_row:
  assumes "0 \<le> r" "r < n"
  shows "tridiag_apply n X r =
     (if 0 < r then - X (r - 1) else 0) + 2 * X r + (if r + 1 < n then - X (r + 1) else 0)"
proof -
  have tm: "\<And>c. laplacian_entry r c * X c =
      (if c = r - 1 then - X (r - 1) else 0) + (if c = r then 2 * X r else 0)
      + (if c = r + 1 then - X (r + 1) else 0)"
    by (auto simp: laplacian_entry_def)
  have "tridiag_apply n X r =
      (\<Sum>c = 0..<n. if c = r - 1 then - X (r - 1) else 0) + (\<Sum>c = 0..<n. if c = r then 2 * X r else 0)
      + (\<Sum>c = 0..<n. if c = r + 1 then - X (r + 1) else 0)"
    by (simp only: tridiag_apply_def tm sum.distrib)
  also have "\<dots> = (if 0 < r then - X (r - 1) else 0) + 2 * X r + (if r + 1 < n then - X (r + 1) else 0)"
    using assms by (simp add: sum.delta')
  finally show ?thesis .
qed



lemma matvec_one_at_a_time:
  "mem (one_at_a_time (LaplacianMatrixMatvec ar) x ldx y ldy b n s) =
   mem (LaplacianMatrixMatvec ar x ldx y ldy b n s)"
  unfolding one_at_a_time_def
  by (subst for_loop_map [where f = mem and
        body' = "\<lambda>i h. for_loop 0 n (matvec_row ar n (x + ldx * i) (y + ldy * i)) h"])
     (simp_all add: LaplacianMatrixMatvec_def Let_def for_loop_once)

lemma precond_one_at_a_time:
  "mem (one_at_a_time (LaplacianApplyPreconditioner ar) x ldx y ldy b n s) =
   mem (LaplacianApplyPreconditioner ar x ldx y ldy b n s)"
  unfolding one_at_a_time_def
  by (subst for_loop_map [where f = mem and
        body' = "\<lambda>i h. for_loop 0 n (precond_row ar (x + ldx * i) (y + ldy * i)) h"])
     (simp_all add: LaplacianApplyPreconditioner_def Let_def for_loop_once)

lemma pad_rows_outside:
  fixes ldy :: int
  assumes "n \<le> ldy" "n \<le> row" "row < ldy"
  shows "\<not> in_block y ldy b n (y + ldy * i + row)"
proof
  assume "in_block y ldy b n (y + ldy * i + row)"
  then obtain i' where i': "y + ldy * i' \<le> y + ldy * i + row" "y + ldy * i + row < y + ldy * i' + n"
    unfolding in_block_iff by blast
  have pos: "0 \<le> ldy" "0 < n" using assms i' by simp_all
  show False
  proof (cases "i' \<le> i")
    case True
    then have "ldy * i' \<le> ldy * i" using pos by (intro mult_left_mono) simp_all
    then show False using i' assms by linarith
  next
    case False
    then have "ldy * (i + 1) \<le> ldy * i'" using pos by (intro mult_left_mono) simp_all
    then have "ldy * i + ldy \<le> ldy * i'" by (simp add: algebra_simps)
    then show False using i' assms by linarith
  qed
qed

lemma later_columns_outside:
  fixes ldy :: int
  assumes "n \<le> ldy" "b \<le> i" "0 \<le> row" "row < ldy"
  shows "\<not> in_block y ldy b n (y + ldy * i + row)"
proof
  assume "in_block y ldy b n (y + ldy * i + row)"
  then obtain i' where i': "0 \<le> i'" "i' < b" "y + ldy * i' \<le> y + ldy * i + row"
      "y + ldy * i + row < y + ldy * i' + n"
    unfolding in_block_iff by blast
  have pos: "0 \<le> ldy" using assms by simp
  have "ldy * (i' + 1) \<le> ldy * i" using pos i' assms by (intro mult_left_mono) simp_all
  then have "ldy * i' + ldy \<le> ldy * i" by (simp add: algebra_simps)
  then show False using i' assms by linarith
qed


lemma matvec_cell_real:
  assumes "blocks_disjoint x ldx y ldy b n" "n \<le> ldy" "0 \<le> i" "i < b" "0 \<le> row" "row < n"
  shows "mem (LaplacianMatrixMatvec real_arith x ldx y ldy b n s) (y + ldy * i + row) =
         (if 0 < row then - mem s (x + ldx * i + (row - 1)) else 0) + 2 * mem s (x + ldx * i + row)
         + (if row + 1 < n then - mem s (x + ldx * i + (row + 1)) else 0)"
  by (simp only: matvec_cell [OF assms] stencil_real)

lemma below_one: "0 \<le> i \<Longrightarrow> i < 1 \<Longrightarrow> i = (0::int)"
  by simp

lemma single_column_disjoint: "blocks_disjoint 0 n n n 1 n"
  by (auto simp: blocks_disjoint_def in_block_iff dest!: below_one)

lemma Laplacian_op_row:
  assumes "0 \<le> r" "r < n"
  shows "Laplacian_op n v r =
     (if 0 < r then - v (r - 1) else 0) + 2 * v r + (if r + 1 < n then - v (r + 1) else 0)"
  using matvec_cell_real [OF single_column_disjoint, of n 0 r "\<lparr>mem = v, ierr = 0\<rparr>"] assms
  by (simp add: Laplacian_op_def)

lemma sum_upper_part:
  fixes g :: "int \<Rightarrow> real"
  shows "(\<Sum>r = 0..<n. if r + 1 < n then g r else 0) = (\<Sum>r = 0..<n - 1. g r)"
proof -
  have "{0..<n} \<inter> {r. r + 1 < n} = {0..<n - 1}" by auto
  then have "(\<Sum>r = 0..<n - 1. g r) = sum g ({0..<n} \<inter> {r. r + 1 < n})" by simp
  also have "\<dots> = (\<Sum>r = 0..<n. if r + 1 < n then g r else 0)"
    by (subst sum.inter_restrict) simp_all
  finally show ?thesis by simp
qed

lemma sum_lower_part:
  fixes g :: "int \<Rightarrow> real"
  shows "(\<Sum>r = 0..<n. if 0 < r then g (r - 1) else 0) = (\<Sum>r = 0..<n - 1. g r)"
proof -
  have "{0..<n} \<inter> {r. 0 < r} = {1..<n}" by auto
  then have "(\<Sum>r = 1..<n. g (r - 1)) = sum (\<lambda>r. g (r - 1)) ({0..<n} \<inter> {r. 0 < r})" by simp
  also have "\<dots> = (\<Sum>r = 0..<n. if 0 < r then g (r - 1) else 0)"
    by (subst sum.inter_restrict) simp_all
  finally have "(\<Sum>r = 0..<n. if 0 < r then g (r - 1) else 0) = (\<Sum>r = 1..<n. g (r - 1))" by simp
  also have "\<dots> = (\<Sum>r = 0..<n - 1. g r)"
    by (rule sum.reindex_bij_witness [of _ "\<lambda>r. r + 1" "\<lambda>r. r - 1"]) auto
  finally show ?thesis .
qed

lemma inner_prod_Laplacian_op:
  "inner_prod n (Laplacian_op n u) v =
     2 * (\<Sum>r = 0..<n. u r * v r)
     - (\<Sum>r = 0..<n - 1. u r * v (r + 1)) - (\<Sum>r = 0..<n - 1. u (r + 1) * v r)"
proof -
  have "inner_prod n (Laplacian_op n u) v =
     (\<Sum>r = 0..<n. ((if 0 < r then - u (r - 1) else 0) + 2 * u r + (if r + 1 < n then - u (r + 1) else 0)) * v r)"
    unfolding inner_prod_def by (rule sum.cong) (simp_all add: Laplacian_op_row)
  also have "\<dots> = (\<Sum>r = 0..<n. (if 0 < r then - (u (r - 1) * v (r - 1 + 1)) else 0) + 2 * (u r * v r)
                      + (if r + 1 < n then - (u (r + 1) * v r) else 0))"
    by (rule sum.cong) (simp_all add: algebra_simps)
  also have "\<dots> = (\<Sum>r = 0..<n. if 0 < r then - (u (r - 1) * v (r - 1 + 1)) else 0)
                   + 2 * (\<Sum>r = 0..<n. u r * v r)
                   + (\<Sum>r = 0..<n. if r + 1 < n then - (u (r + 1) * v r) else 0)"
    by (simp only: sum.distrib sum_distrib_left)
  also have "\<dots> = (\<Sum>r = 0..<n - 1. - (u r * v (r + 1)))
                   + 2 * (\<Sum>r = 0..<n. u r * v r)
                   + (\<Sum>r = 0..<n - 1. - (u (r + 1) * v r))"
    by (simp only: sum_lower_part [where g = "\<lambda>r. - (u r * v (r + 1))"] sum_upper_part)
  finally show ?thesis by (simp add: sum_negf)
qed

lemma inner_prod_commute: "inner_prod n u v = inner_prod n v u"
  by (simp add: inner_prod_def mult.commute)

lemma Laplacian_op_symmetric:
  "inner_prod n (Laplacian_op n u) v = inner_prod n u (Laplacian_op n v)"
proof -
  have "inner_prod n u (Laplacian_op n v) = inner_prod n (Laplacian_op n v) u"
    by (rule inner_prod_commute)
  also have "\<dots> = 2 * (\<Sum>r = 0..<n. v r * u r)
     - (\<Sum>r = 0..<n - 1. v r * u (r + 1)) - (\<Sum>r = 0..<n - 1. v (r + 1) * u r)"
    by (rule inner_prod_Laplacian_op)
  also have "\<dots> = 2 * (\<Sum>r = 0..<n. u r * v r)
     - (\<Sum>r = 0..<n - 1. u r * v (r + 1)) - (\<Sum>r = 0..<n - 1. u (r + 1) * v r)"
    by (simp add: mult.commute)
  also have "\<dots> = inner_prod n (Laplacian_op n u) v"
    by (rule inner_prod_Laplacian_op [symmetric])
  finally show ?thesis by simp
qed

lemma quadratic_form:
  assumes "0 < n"
  shows "inner_prod n u (Laplacian_op n u) =
     (u 0)\<^sup>2 + (u (n - 1))\<^sup>2 + (\<Sum>r = 0..<n - 1. (u r - u (r + 1))\<^sup>2)"
proof -
  have top: "(\<Sum>r = 0..<n. (u r)\<^sup>2) = (\<Sum>r = 0..<n - 1. (u r)\<^sup>2) + (u (n - 1))\<^sup>2"
  proof -
    have "{0..<n} = insert (n - 1) {0..<n - 1}" using assms by auto
    then show ?thesis by simp
  qed
  have bot: "(\<Sum>r = 0..<n. (u r)\<^sup>2) = (u 0)\<^sup>2 + (\<Sum>r = 0..<n - 1. (u (r + 1))\<^sup>2)"
  proof -
    have "{0..<n} = insert 0 {1..<n}" using assms by auto
    then have "(\<Sum>r = 0..<n. (u r)\<^sup>2) = (u 0)\<^sup>2 + (\<Sum>r = 1..<n. (u r)\<^sup>2)" by simp
    also have "(\<Sum>r = 1..<n. (u r)\<^sup>2) = (\<Sum>r = 0..<n - 1. (u (r + 1))\<^sup>2)"
      by (rule sum.reindex_bij_witness [of _ "\<lambda>r. r + 1" "\<lambda>r. r - 1"]) auto
    finally show ?thesis .
  qed
  have sq: "(\<Sum>r = 0..<n - 1. (u r - u (r + 1))\<^sup>2) =
      (\<Sum>r = 0..<n - 1. (u r)\<^sup>2) + (\<Sum>r = 0..<n - 1. (u (r + 1))\<^sup>2)
      - 2 * (\<Sum>r = 0..<n - 1. u r * u (r + 1))"
    by (simp add: power2_diff sum.distrib sum_subtractf sum_distrib_left algebra_simps)
  have "inner_prod n u (Laplacian_op n u) = inner_prod n (Laplacian_op n u) u"
    by (rule inner_prod_commute)
  also have "\<dots> = 2 * (\<Sum>r = 0..<n. u r * u r)
     - (\<Sum>r = 0..<n - 1. u r * u (r + 1)) - (\<Sum>r = 0..<n - 1. u (r + 1) * u r)"
    by (rule inner_prod_Laplacian_op)
  also have "\<dots> = (\<Sum>r = 0..<n. (u r)\<^sup>2) + (\<Sum>r = 0..<n. (u r)\<^sup>2)
     - 2 * (\<Sum>r = 0..<n - 1. u r * u (r + 1))"
    by (simp add: power2_eq_square mult.commute)
  also have "\<dots> = ((\<Sum>r = 0..<n - 1. (u r)\<^sup>2) + (u (n - 1))\<^sup>2)
     + ((u 0)\<^sup>2 + (\<Sum>r = 0..<n - 1. (u (r + 1))\<^sup>2))
     - 2 * (\<Sum>r = 0..<n - 1. u r * u (r + 1))"
    using top bot by simp
  finally show ?thesis using sq by simp
qed

lemma Laplacian_op_positive:
  assumes nz: "\<exists>r. 0 \<le> r \<and> r < n \<and> u r \<noteq> 0"
  shows "0 < inner_prod n u (Laplacian_op n u)"
proof -
  from nz have n: "0 < n" by auto
  let ?D = "\<Sum>r = 0..<n - 1. (u r - u (r + 1))\<^sup>2"
  have q: "inner_prod n u (Laplacian_op n u) = (u 0)\<^sup>2 + (u (n - 1))\<^sup>2 + ?D"
    using n by (rule quadratic_form)
  have D0: "0 \<le> ?D" by (rule sum_nonneg) simp
  have nonneg: "0 \<le> inner_prod n u (Laplacian_op n u)" using q D0 by simp
  have "inner_prod n u (Laplacian_op n u) \<noteq> 0"
  proof
    assume z: "inner_prod n u (Laplacian_op n u) = 0"
    have sum0: "(u 0)\<^sup>2 + (u (n - 1))\<^sup>2 + ?D = 0" using q z by simp
    have a: "0 \<le> (u 0)\<^sup>2" and b: "0 \<le> (u (n - 1))\<^sup>2" by simp_all
    have u0: "u 0 = 0"
    proof -
      have "(u 0)\<^sup>2 = 0" using sum0 a b D0 by linarith
      then show ?thesis by simp
    qed
    have "?D = 0" using sum0 a b D0 by linarith
    then have "\<forall>r\<in>{0..<n - 1}. (u r - u (r + 1))\<^sup>2 = 0"
      by (subst (asm) sum_nonneg_eq_0_iff) simp_all
    then have eq: "\<And>r. 0 \<le> r \<Longrightarrow> r + 1 < n \<Longrightarrow> u (r + 1) = u r" by simp
    have all0: "r < n \<longrightarrow> u r = 0" if "0 \<le> r" for r
      using that
    proof (induction r rule: int_ge_induct)
      case base
      show ?case using u0 by simp
    next
      case (step i)
      show ?case
      proof
        assume "i + 1 < n"
        then have "u (i + 1) = u i" "i < n" using step.hyps eq by simp_all
        then show "u (i + 1) = 0" using step.IH by simp
      qed
    qed
    from nz obtain r where "0 \<le> r" "r < n" "u r \<noteq> 0" by blast
    then show False using all0 by blast
  qed
  then show ?thesis using nonneg by simp
qed

lemma example_disjoint: "blocks_disjoint 0 3 6 4 2 3"
  by (auto simp: blocks_disjoint_def in_block_iff)

lemma sum_upto_3: "(\<Sum>r = 0..<3. f r) = f 0 + f 1 + (f (2::int) :: real)"
proof -
  have "{0..<3::int} = {0, 1, 2}" by auto
  then show ?thesis by simp
qed

subsection \<open>The callbacks run on the concrete input\<close>

text \<open>
  The output block after one call, cell by cell: the two columns of three rows, each
  followed by its cell of padding.
\<close>

lemma matvec_example_run:
  "map (mem (LaplacianMatrixMatvec real_arith 0 3 6 4 2 3 example_state)) [6, 7, 8, 9, 10, 11, 12, 13]
     = [- 1, - 5, 17, 0, - 1, - 3, 17, 0]"
  by (simp add: LaplacianMatrixMatvec_def matvec_row_def Let_def for_loop_step for_loop_done
        real_arith_def example_state_def example_heap_def)

lemma precond_example_run:
  "map (mem (LaplacianApplyPreconditioner real_arith 0 3 6 4 2 3 example_state)) [6, 7, 8, 9, 10, 11, 12, 13]
     = [1 / 2, 3 / 2, 5, 0, 1, 5 / 2, 11 / 2, 0]"
  by (simp add: LaplacianApplyPreconditioner_def precond_row_def Let_def for_loop_step for_loop_done
        real_arith_def example_state_def example_heap_def)

text \<open>
  Called in place (\<open>x = y\<close>) the product reads entries it has already overwritten: the
  column \<open>(1, 3, 10)\<close> becomes \<open>(-3, -1, 3)\<close> and not \<open>(-1, -5, 17)\<close>. The properties
  of the values below are therefore stated for separate buffers.
\<close>

lemma matvec_in_place_run:
  "map (mem (LaplacianMatrixMatvec real_arith 0 3 0 3 1 3 example_state)) [0, 1, 2] = [- 3, - 1, 3]"
  by (simp add: LaplacianMatrixMatvec_def matvec_row_def Let_def for_loop_step for_loop_done
        real_arith_def example_state_def example_heap_def)

subsection \<open>The claims about the callbacks\<close>

text \<open>
  C1. For a block of \<open>b\<close> input columns of length \<open>n\<close> at \<open>x\<close> and an output block at
  \<open>y\<close> that is a separate buffer whose columns do not overlap (\<open>n \<le> ldy\<close>),
  \<open>LaplacianMatrixMatvec\<close> leaves in row \<open>row\<close> of output column \<open>i\<close> the value
  \<open>-X[row-1] + 2*X[row] - X[row+1]\<close> of input column \<open>i\<close>, without the term \<open>X[row-1]\<close>
  in the first row and without \<open>X[row+1]\<close> in the last: in every arithmetic the terms
  added in the order of the source (\<open>stencil\<close>), in exact arithmetic their sum, which is
  row \<open>row\<close> of the product of the tridiagonal matrix (2 on the diagonal, -1 beside it)
  with the column.
\<close>

theorem LaplacianMatrixMatvec_tridiagonal:
  fixes s :: "'a state" and t :: "real state"
  assumes "blocks_disjoint x ldx y ldy b n" and "n \<le> ldy"
    and "0 \<le> i" and "i < b" and "0 \<le> row" and "row < n"
  shows "mem (LaplacianMatrixMatvec ar x ldx y ldy b n s) (y + ldy * i + row) =
           stencil ar n (\<lambda>c. mem s (x + ldx * i + c)) row
         \<and> mem (LaplacianMatrixMatvec real_arith x ldx y ldy b n t) (y + ldy * i + row) =
           (if 0 < row then - mem t (x + ldx * i + (row - 1)) else 0)
           + 2 * mem t (x + ldx * i + row)
           + (if row + 1 < n then - mem t (x + ldx * i + (row + 1)) else 0)
         \<and> mem (LaplacianMatrixMatvec real_arith x ldx y ldy b n t) (y + ldy * i + row) =
           tridiag_apply n (\<lambda>c. mem t (x + ldx * i + c)) row"
proof -
  have "mem (LaplacianMatrixMatvec ar x ldx y ldy b n s) (y + ldy * i + row) =
           stencil ar n (\<lambda>c. mem s (x + ldx * i + c)) row"
    using assms by (rule matvec_cell)
  moreover have "mem (LaplacianMatrixMatvec real_arith x ldx y ldy b n t) (y + ldy * i + row) =
           (if 0 < row then - mem t (x + ldx * i + (row - 1)) else 0)
           + 2 * mem t (x + ldx * i + row)
           + (if row + 1 < n then - mem t (x + ldx * i + (row + 1)) else 0)"
    using assms by (rule matvec_cell_real)
  moreover have "tridiag_apply n (\<lambda>c. mem t (x + ldx * i + c)) row =
           (if 0 < row then - mem t (x + ldx * i + (row - 1)) else 0)
           + 2 * mem t (x + ldx * i + row)
           + (if row + 1 < n then - mem t (x + ldx * i + (row + 1)) else 0)"
    using assms(5,6) by (rule tridiag_apply_row)
  ultimately show ?thesis by simp
qed

theorem LaplacianMatrixMatvec_tridiagonal_witness:
  "blocks_disjoint 0 3 6 4 2 3
   \<and> mem (LaplacianMatrixMatvec real_arith 0 3 6 4 2 3 example_state) 11 = - 3
   \<and> tridiag_apply 3 (\<lambda>c. mem example_state (3 + c)) 1 = - 3"
proof -
  have h: "(3::int) \<le> 4" "(0::int) \<le> 1" "(1::int) < 2" "(1::int) < 3" by simp_all
  from LaplacianMatrixMatvec_tridiagonal [OF example_disjoint h(1) h(2) h(3) h(2) h(4),
      where ar = real_arith and s = example_state and t = example_state]
  show ?thesis by (simp add: example_disjoint example_state_def example_heap_def)
qed

text \<open>
  C2. One call with block width \<open>b\<close> leaves the same memory as \<open>b\<close> calls with block
  width 1, one for each column with the pointers of that column and the same leading
  dimensions; this holds for \<open>LaplacianMatrixMatvec\<close> and for
  \<open>LaplacianApplyPreconditioner\<close>, for every arithmetic \<open>ar\<close> (so bit for bit on
  \<open>double\<close>), every block width and every placement of the buffers.
\<close>

theorem block_width_independent:
  "mem (LaplacianMatrixMatvec ar x ldx y ldy b n s) =
     mem (one_at_a_time (LaplacianMatrixMatvec ar) x ldx y ldy b n s)
   \<and> mem (LaplacianApplyPreconditioner ar x ldx y ldy b n s) =
     mem (one_at_a_time (LaplacianApplyPreconditioner ar) x ldx y ldy b n s)"
  by (simp add: matvec_one_at_a_time precond_one_at_a_time)

theorem block_width_independent_witness:
  "mem (one_at_a_time (LaplacianMatrixMatvec real_arith) 0 3 6 4 2 3 example_state) 11 = - 3
   \<and> mem (one_at_a_time (LaplacianApplyPreconditioner real_arith) 0 3 6 4 2 3 example_state) 11 = 5 / 2"
proof -
  have a: "mem (LaplacianMatrixMatvec real_arith 0 3 6 4 2 3 example_state) 11 = - 3"
    using matvec_cell_real [OF example_disjoint, of 1 1 example_state]
    by (simp add: example_state_def example_heap_def)
  have b: "mem (LaplacianApplyPreconditioner real_arith 0 3 6 4 2 3 example_state) 11 = 5 / 2"
    using precond_cell [OF example_disjoint, of 1 1 real_arith example_state]
    by (simp add: example_state_def example_heap_def real_arith_def)
  from block_width_independent [of real_arith 0 3 6 4 2 3 example_state] a b
  show ?thesis by simp
qed

text \<open>
  C3. In exact arithmetic the operator applied by \<open>LaplacianMatrixMatvec\<close> is symmetric,
  \<open>(A u, v) = (u, A v)\<close> for all vectors \<open>u\<close>, \<open>v\<close> of length \<open>n\<close>, and positive
  definite: \<open>(u, A u) > 0\<close> for every \<open>u\<close> with a nonzero entry.
\<close>

theorem Laplacian_op_symmetric_positive:
  "inner_prod n (Laplacian_op n u) v = inner_prod n u (Laplacian_op n v)
   \<and> ((\<exists>r. 0 \<le> r \<and> r < n \<and> u r \<noteq> 0) \<longrightarrow> 0 < inner_prod n u (Laplacian_op n u))"
  using Laplacian_op_symmetric [of n u v] Laplacian_op_positive [of n u] by blast

theorem Laplacian_op_symmetric_positive_witness:
  "example_heap 0 \<noteq> 0
   \<and> 0 < inner_prod 3 example_heap (Laplacian_op 3 example_heap)
   \<and> inner_prod 3 example_heap (Laplacian_op 3 example_heap) = 154
   \<and> inner_prod 3 (Laplacian_op 3 example_heap) example_vec = 71
   \<and> inner_prod 3 example_heap (Laplacian_op 3 example_vec) = 71"
proof -
  have nz: "\<exists>r. 0 \<le> r \<and> r < 3 \<and> example_heap r \<noteq> 0"
    by (rule exI [of _ 0]) (simp add: example_heap_def)
  have q: "inner_prod 3 example_heap (Laplacian_op 3 example_heap) = 154"
    by (simp add: inner_prod_def sum_upto_3 Laplacian_op_row example_heap_def)
  have s: "inner_prod 3 (Laplacian_op 3 example_heap) example_vec = 71"
    by (simp add: inner_prod_def sum_upto_3 Laplacian_op_row example_heap_def example_vec_def)
  from Laplacian_op_symmetric_positive [of 3 example_heap example_vec] nz q s
  show ?thesis by (simp add: example_heap_def)
qed

text \<open>
  C7. Both callbacks (\<open>F\<close> is either one) change no cell other than the cells
  \<open>y[ldy*i + row]\<close> with \<open>0 \<le> i < b\<close> and \<open>0 \<le> row < n\<close>. So the input block is unchanged
  when \<open>x\<close> and \<open>y\<close> are separate buffers, and with \<open>n \<le> ldy\<close> the rows from \<open>n\<close> on
  of every column and the columns from \<open>b\<close> on keep their values. Neither \<open>0 \<le> b\<close> nor
  \<open>n \<le> ldx\<close> is needed.
\<close>

theorem callbacks_frame:
  assumes "F = LaplacianMatrixMatvec ar \<or> F = LaplacianApplyPreconditioner ar"
    and "n \<le> ldy"
  shows "(\<forall>a. \<not> in_block y ldy b n a \<longrightarrow> mem (F x ldx y ldy b n s) a = mem s a)
       \<and> (blocks_disjoint x ldx y ldy b n \<longrightarrow>
            (\<forall>i row. 0 \<le> i \<and> i < b \<and> 0 \<le> row \<and> row < n \<longrightarrow>
               mem (F x ldx y ldy b n s) (x + ldx * i + row) = mem s (x + ldx * i + row)))
       \<and> (\<forall>i row. n \<le> row \<and> row < ldy \<longrightarrow>
            mem (F x ldx y ldy b n s) (y + ldy * i + row) = mem s (y + ldy * i + row))
       \<and> (\<forall>i row. b \<le> i \<and> 0 \<le> row \<and> row < ldy \<longrightarrow>
            mem (F x ldx y ldy b n s) (y + ldy * i + row) = mem s (y + ldy * i + row))"
proof -
  have frame: "\<And>a. \<not> in_block y ldy b n a \<Longrightarrow> mem (F x ldx y ldy b n s) a = mem s a"
    using assms(1) by (auto simp: matvec_frame precond_frame)
  have xs: "blocks_disjoint x ldx y ldy b n \<Longrightarrow> 0 \<le> i \<and> i < b \<and> 0 \<le> row \<and> row < n \<Longrightarrow>
      mem (F x ldx y ldy b n s) (x + ldx * i + row) = mem s (x + ldx * i + row)" for i row
    by (rule frame) (simp add: blocks_disjoint_def)
  have pad: "n \<le> row \<and> row < ldy \<Longrightarrow>
      mem (F x ldx y ldy b n s) (y + ldy * i + row) = mem s (y + ldy * i + row)" for i row
    using assms(2) by (intro frame pad_rows_outside) simp_all
  have later: "b \<le> i \<and> 0 \<le> row \<and> row < ldy \<Longrightarrow>
      mem (F x ldx y ldy b n s) (y + ldy * i + row) = mem s (y + ldy * i + row)" for i row
    using assms(2) by (intro frame later_columns_outside) simp_all
  show ?thesis using frame xs pad later by blast
qed

theorem callbacks_frame_witness:
  "blocks_disjoint 0 3 6 4 2 3
   \<and> mem (LaplacianMatrixMatvec real_arith 0 3 6 4 2 3 example_state) 4 = 5
   \<and> mem (LaplacianMatrixMatvec real_arith 0 3 6 4 2 3 example_state) 9 = 0
   \<and> mem (LaplacianMatrixMatvec real_arith 0 3 6 4 2 3 example_state) 15 = 0
   \<and> mem (LaplacianApplyPreconditioner real_arith 0 3 6 4 2 3 example_state) 4 = 5
   \<and> mem (LaplacianApplyPreconditioner real_arith 0 3 6 4 2 3 example_state) 9 = 0
   \<and> mem (LaplacianApplyPreconditioner real_arith 0 3 6 4 2 3 example_state) 15 = 0"
proof -
  have le: "(3::int) \<le> 4" by simp
  note mv = callbacks_frame [of "LaplacianMatrixMatvec real_arith" real_arith 3 4 6 2 0 3 example_state,
      OF disjI1 [OF refl] le]
  note pc = callbacks_frame [of "LaplacianApplyPreconditioner real_arith" real_arith 3 4 6 2 0 3 example_state,
      OF disjI2 [OF refl] le]
  note mv_x = mv [THEN conjunct2, THEN conjunct1, rule_format, OF example_disjoint, of 1 1]
  note mv_pad = mv [THEN conjunct2, THEN conjunct2, THEN conjunct1, rule_format, of 3 0]
  note mv_later = mv [THEN conjunct2, THEN conjunct2, THEN conjunct2, rule_format, of 2 1]
  note pc_x = pc [THEN conjunct2, THEN conjunct1, rule_format, OF example_disjoint, of 1 1]
  note pc_pad = pc [THEN conjunct2, THEN conjunct2, THEN conjunct1, rule_format, of 3 0]
  note pc_later = pc [THEN conjunct2, THEN conjunct2, THEN conjunct2, rule_format, of 2 1]
  from mv_x mv_pad mv_later pc_x pc_pad pc_later show ?thesis
    by (simp add: example_disjoint example_state_def example_heap_def)
qed

text \<open>
  C8. Both callbacks set the status \<open>ierr\<close> to 0, for every block width (zero and
  negative ones included) and every input; no other status is ever produced.
\<close>

theorem callbacks_status_zero:
  "ierr (LaplacianMatrixMatvec ar x ldx y ldy b n s) = 0
   \<and> ierr (LaplacianApplyPreconditioner ar x ldx y ldy b n s) = 0"
  by (simp add: LaplacianMatrixMatvec_def LaplacianApplyPreconditioner_def)

theorem callbacks_status_zero_witness:
  "ierr example_state = 1
   \<and> ierr (LaplacianMatrixMatvec real_arith 0 3 6 4 2 3 example_state) = 0
   \<and> ierr (LaplacianApplyPreconditioner real_arith 0 3 6 4 0 3 example_state) = 0"
  using callbacks_status_zero [of real_arith 0 3 6 4 2 3 example_state]
    callbacks_status_zero [of real_arith 0 3 6 4 0 3 example_state]
  by (simp add: example_state_def)

text \<open>
  C10. Under the conditions of C1, \<open>LaplacianApplyPreconditioner\<close> leaves
  \<open>x[row] / 2\<close> in row \<open>row\<close> of output column \<open>i\<close>, in every arithmetic; in exact
  arithmetic this is the inverse of the diagonal matrix with 2 on the diagonal applied to
  the column, and the output entry differs from the input entry wherever that is not
  zero, so the map is not the identity.
\<close>

theorem LaplacianApplyPreconditioner_halves:
  fixes s :: "'a state" and t :: "real state"
  assumes "blocks_disjoint x ldx y ldy b n" and "n \<le> ldy"
    and "0 \<le> i" and "i < b" and "0 \<le> row" and "row < n"
  shows "mem (LaplacianApplyPreconditioner ar x ldx y ldy b n s) (y + ldy * i + row) =
           fdiv ar (mem s (x + ldx * i + row)) (lit ar 2)
         \<and> mem (LaplacianApplyPreconditioner real_arith x ldx y ldy b n t) (y + ldy * i + row) =
           mem t (x + ldx * i + row) / 2
         \<and> (mem t (x + ldx * i + row) \<noteq> 0 \<longrightarrow>
              mem (LaplacianApplyPreconditioner real_arith x ldx y ldy b n t) (y + ldy * i + row)
                \<noteq> mem t (x + ldx * i + row))"
  using precond_cell [OF assms, of ar s] precond_cell [OF assms, of real_arith t]
  by (simp add: real_arith_def)

theorem LaplacianApplyPreconditioner_halves_witness:
  "blocks_disjoint 0 3 6 4 2 3
   \<and> mem example_state 1 = 3
   \<and> mem (LaplacianApplyPreconditioner real_arith 0 3 6 4 2 3 example_state) 7 = 3 / 2"
proof -
  have h: "(3::int) \<le> 4" "(0::int) \<le> 0" "(0::int) < 2" "(0::int) \<le> 1" "(1::int) < 3"
    by simp_all
  from LaplacianApplyPreconditioner_halves [OF example_disjoint h,
      where ar = real_arith and s = example_state and t = example_state]
  show ?thesis by (simp add: example_disjoint example_state_def example_heap_def)
qed

section \<open>The driver\<close>

lemma main_report_eq:
  "main_report ar r out =
     out @ map (\<lambda>i. EvalLine (i + 1) (evals r i) (rnorms r i)) [0..initSize (primme_out r) - 1]
     @ [ConvergedLine (initSize (primme_out r)),
        ToleranceLine (fmul ar (aNorm (primme_out r)) (eps (primme_out r))),
        IterationsLine (numOuterIterations (stats (primme_out r))),
        RestartsLine (numRestarts (stats (primme_out r))),
        MatvecsLine (numMatvecs (stats (primme_out r))),
        PrecondsLine (numPreconds (stats (primme_out r)))]
     @ (if locking_flagged (primme_out r) then locking_problem else [])
     @ recommendation (dynamicMethodSwitch (primme_out r))"
  by (cases "intWork (primme_out r)")
     (simp_all add: main_report_def Let_def for_loop_append recommendation_def locking_flagged_def)

lemma main_failed:
  assumes "ret (dprimme ext (main_setup ar ext)) \<noteq> 0"
  shows "main ar ext = \<lparr>printed = [DisplayParams (main_setup ar ext),
                                   ErrorLine (ret (dprimme ext (main_setup ar ext)))],
                        exit_code = - 1\<rparr>"
  using assms by (simp add: main_def Let_def)

lemma main_succeeded:
  assumes "ret (dprimme ext (main_setup ar ext)) = 0"
  shows "main ar ext = \<lparr>printed = main_report ar (dprimme ext (main_setup ar ext))
                                    [DisplayParams (main_setup ar ext)],
                        exit_code = 0\<rparr>"
  using assms by (simp add: main_def Let_def)

lemma recommendation_filter: "filter is_recommendation (recommendation v) = recommendation v"
  by (simp add: recommendation_def is_recommendation_def)

lemma locking_problem_filter: "filter is_recommendation locking_problem = []"
  by (simp add: locking_problem_def is_recommendation_def)

lemma eval_lines_filter:
  "filter is_recommendation (map (\<lambda>i. EvalLine (i + 1) (ev i) (rn i)) xs) = []"
  by (induction xs) (simp_all add: is_recommendation_def)

lemma recommendations_report:
  "filter is_recommendation (main_report ar r [DisplayParams p]) =
     recommendation (dynamicMethodSwitch (primme_out r))"
  by (simp add: main_report_eq recommendation_filter locking_problem_filter eval_lines_filter
        is_recommendation_def)

lemma eval_lines_mem:
  "0 \<le> i \<Longrightarrow> i < k \<Longrightarrow> EvalLine (i + 1) (ev i) (rn i) \<in> set (map (\<lambda>i. EvalLine (i + 1) (ev i) (rn i)) [0..k - 1])"
  by simp




text \<open>The whole output of \<open>main\<close> with the library whose solver converges.\<close>

lemma main_solved_run:
  "printed (main real_arith ext_solved) =
     [DisplayParams (main_setup real_arith ext_solved),
      EvalLine 1 (1 / 1000) (1 / 10 ^ 10), EvalLine 2 (4 / 1000) (1 / 10 ^ 10),
      ConvergedLine 2, ToleranceLine (4 / 10 ^ 9), IterationsLine 50, RestartsLine 3,
      MatvecsLine 120, PrecondsLine 100,
      Message ''A locking problem has occurred.'',
      Message ''Some eigenpairs do not have a residual norm less than the tolerance.'',
      Message ''However, the subspace of evecs is accurate to the required tolerance.'',
      Message ''Recommended method for next run: DEFAULT_MIN_MATVECS'']"
  by (simp add: main_def main_report_def main_setup_def main_config_def Let_def
        for_loop_step for_loop_done ext_solved_def solved_def set_method_example_def
        default_params_def locking_problem_def real_arith_def of_rat_divide of_rat_power)

subsection \<open>The claims about the driver\<close>

text \<open>
  C4, as amended. When the solver returns a nonzero status, \<open>main\<close> prints one line
  after the display of the parameters, the error message with that status, and returns
  -1; no eigenpair line is printed, whatever the solver left in the arrays.
\<close>

theorem main_failure_prints_only_error:
  assumes "ret (dprimme ext (main_setup ar ext)) \<noteq> 0"
  shows "printed (main ar ext) =
           [DisplayParams (main_setup ar ext), ErrorLine (ret (dprimme ext (main_setup ar ext)))]
         \<and> exit_code (main ar ext) = - 1
         \<and> filter is_eval_line (printed (main ar ext)) = []"
  using assms by (simp add: main_failed is_eval_line_def)

theorem main_failure_prints_only_error_witness:
  "ret (dprimme ext_exhausted (main_setup real_arith ext_exhausted)) \<noteq> 0
   \<and> printed (main real_arith ext_exhausted) =
       [DisplayParams (main_setup real_arith ext_exhausted), ErrorLine (- 3)]
   \<and> exit_code (main real_arith ext_exhausted) = - 1"
proof -
  have r: "ret (dprimme ext_exhausted (main_setup real_arith ext_exhausted)) = - 3"
    by (simp add: ext_exhausted_def exhausted_def)
  then have nz: "ret (dprimme ext_exhausted (main_setup real_arith ext_exhausted)) \<noteq> 0" by simp
  from main_failure_prints_only_error [OF nz] r nz show ?thesis by simp
qed

text \<open>
  C4 as stated fails: the solver stops with status -3 and one eigenpair in the arrays,
  and the line of that eigenpair is not among the lines \<open>main\<close> prints.
\<close>

theorem main_failure_drops_results:
  "ret (dprimme ext_exhausted (main_setup real_arith ext_exhausted)) = - 3
   \<and> initSize (primme_out (dprimme ext_exhausted (main_setup real_arith ext_exhausted))) = 1
   \<and> evals (dprimme ext_exhausted (main_setup real_arith ext_exhausted)) 0 = 1 / 1000
   \<and> rnorms (dprimme ext_exhausted (main_setup real_arith ext_exhausted)) 0 = 1 / 10 ^ 10
   \<and> EvalLine 1 (1 / 1000) (1 / 10 ^ 10) \<notin> set (printed (main real_arith ext_exhausted))
   \<and> exit_code (main real_arith ext_exhausted) = - 1"
  by (simp add: main_def Let_def ext_exhausted_def exhausted_def)



text \<open>
  C6, as amended. After a solve that returned 0, the recommendations \<open>main\<close> prints
  are: the line for \<open>DEFAULT_MIN_MATVECS\<close> when \<open>dynamicMethodSwitch\<close> is -1, the line
  for \<open>DEFAULT_MIN_TIME\<close> when it is -2, the line for \<open>DYNAMIC (close call)\<close> when it is
  -3, and none for any other value. After a solve that returned a nonzero status
  \<open>main\<close> prints no recommendation.
\<close>

theorem main_recommendation:
  "let r = dprimme ext (main_setup ar ext); v = dynamicMethodSwitch (primme_out r);
       recs = filter is_recommendation (printed (main ar ext))
   in (ret r = 0 \<longrightarrow>
         recs = (if v = - 1 then [Message ''Recommended method for next run: DEFAULT_MIN_MATVECS'']
                 else if v = - 2 then [Message ''Recommended method for next run: DEFAULT_MIN_TIME'']
                 else if v = - 3 then [Message ''Recommended method for next run: DYNAMIC (close call)'']
                 else []))
      \<and> (ret r \<noteq> 0 \<longrightarrow> recs = [])"
proof -
  have a: "ret (dprimme ext (main_setup ar ext)) = 0 \<Longrightarrow>
      filter is_recommendation (printed (main ar ext)) =
        recommendation (dynamicMethodSwitch (primme_out (dprimme ext (main_setup ar ext))))"
    by (simp add: main_succeeded recommendations_report)
  have b: "ret (dprimme ext (main_setup ar ext)) \<noteq> 0 \<Longrightarrow>
      filter is_recommendation (printed (main ar ext)) = []"
    by (simp add: main_failed is_recommendation_def)
  show ?thesis using a b by (simp add: Let_def recommendation_def)
qed

theorem main_recommendation_witness:
  "ret (dprimme ext_solved (main_setup real_arith ext_solved)) = 0
   \<and> dynamicMethodSwitch (primme_out (dprimme ext_solved (main_setup real_arith ext_solved))) = - 1
   \<and> filter is_recommendation (printed (main real_arith ext_solved)) =
       [Message ''Recommended method for next run: DEFAULT_MIN_MATVECS'']"
proof -
  have r: "ret (dprimme ext_solved (main_setup real_arith ext_solved)) = 0"
    and v: "dynamicMethodSwitch (primme_out (dprimme ext_solved (main_setup real_arith ext_solved))) = - 1"
    by (simp_all add: ext_solved_def solved_def)
  from main_recommendation [of ext_solved real_arith] r v show ?thesis by (simp add: Let_def)
qed

text \<open>
  C6 as stated fails: the solver stops with status -3 and the value -1, and \<open>main\<close>
  prints no recommendation.
\<close>

theorem main_failure_no_recommendation:
  "ret (dprimme ext_exhausted (main_setup real_arith ext_exhausted)) = - 3
   \<and> dynamicMethodSwitch (primme_out (dprimme ext_exhausted (main_setup real_arith ext_exhausted))) = - 1
   \<and> Message ''Recommended method for next run: DEFAULT_MIN_MATVECS''
        \<notin> set (printed (main real_arith ext_exhausted))
   \<and> filter is_recommendation (printed (main real_arith ext_exhausted)) = []"
  by (simp add: main_def Let_def ext_exhausted_def exhausted_def is_recommendation_def)

text \<open>
  C9. The assignments of \<open>main\<close> set \<open>n = 100\<close>, \<open>numEvals = 10\<close>, \<open>eps\<close> to the value
  of \<open>1e-9\<close> and \<open>target = primme_smallest\<close>, and \<open>main\<close> does so before it calls the
  solver: the structure \<open>p\<close> that \<open>main\<close> displays first and then hands to the solver is
  what \<open>primme_set_method\<close> returns for \<open>PRIMME_DYNAMIC\<close> on the structure with these four
  values, and what \<open>main\<close> prints and returns is fixed by the result of the solver on
  \<open>p\<close> and by nothing else of the solver (after a failure the error line carries the
  status the solver returned on \<open>p\<close>). The solver receives the four values whenever
  \<open>primme_set_method\<close> leaves these four fields as they are.
\<close>

theorem main_configures_reference_problem:
  "let cfg = main_config ar ext; p = primme_set_method ext PRIMME_DYNAMIC cfg; r = dprimme ext p
   in primme_n cfg = 100
      \<and> numEvals cfg = 10
      \<and> eps cfg = lit ar (1 / 10 ^ 9)
      \<and> target cfg = primme_smallest
      \<and> main_setup ar ext = p
      \<and> (\<exists>rest. printed (main ar ext) = DisplayParams p # rest)
      \<and> (ret r \<noteq> 0 \<longrightarrow>
            printed (main ar ext) = [DisplayParams p, ErrorLine (ret r)]
            \<and> exit_code (main ar ext) = - 1)
      \<and> (ret r = 0 \<longrightarrow>
            printed (main ar ext) = main_report ar r [DisplayParams p]
            \<and> exit_code (main ar ext) = 0)
      \<and> main ar ext = main ar (ext\<lparr>dprimme := \<lambda>q. r\<rparr>)
      \<and> ((\<forall>q. primme_n (primme_set_method ext PRIMME_DYNAMIC q) = primme_n q
               \<and> numEvals (primme_set_method ext PRIMME_DYNAMIC q) = numEvals q
               \<and> eps (primme_set_method ext PRIMME_DYNAMIC q) = eps q
               \<and> target (primme_set_method ext PRIMME_DYNAMIC q) = target q) \<longrightarrow>
           primme_n p = 100 \<and> numEvals p = 10 \<and> eps p = lit ar (1 / 10 ^ 9)
           \<and> target p = primme_smallest)"
proof -
  define cfg where "cfg = main_config ar ext"
  define p where "p = primme_set_method ext PRIMME_DYNAMIC cfg"
  define r where "r = dprimme ext p"
  have at_call: "main_setup ar ext = p"
    by (simp add: main_setup_def p_def cfg_def)
  have cfg: "primme_n cfg = 100" "numEvals cfg = 10" "eps cfg = lit ar (1 / 10 ^ 9)"
     "target cfg = primme_smallest"
    by (simp_all add: cfg_def main_config_def)
  have failed: "ret r \<noteq> 0 \<Longrightarrow>
      printed (main ar ext) = [DisplayParams p, ErrorLine (ret r)] \<and> exit_code (main ar ext) = - 1"
    using main_failed [of ext ar] by (simp add: at_call r_def)
  have succeeded: "ret r = 0 \<Longrightarrow>
      printed (main ar ext) = main_report ar r [DisplayParams p] \<and> exit_code (main ar ext) = 0"
    using main_succeeded [of ext ar] by (simp add: at_call r_def)
  have first: "\<exists>rest. printed (main ar ext) = DisplayParams p # rest"
  proof (cases "ret r = 0")
    case True
    then show ?thesis using succeeded by (simp add: main_report_eq)
  next
    case False
    then show ?thesis using failed by simp
  qed
  have same: "main_setup ar (ext\<lparr>dprimme := f\<rparr>) = main_setup ar ext" for f
    by (simp add: main_setup_def main_config_def)
  have run: "main ar ext = main ar (ext\<lparr>dprimme := \<lambda>q. r\<rparr>)"
    by (simp add: main_def same Let_def at_call [symmetric] r_def)
  have kept: "(\<forall>q. primme_n (primme_set_method ext PRIMME_DYNAMIC q) = primme_n q
               \<and> numEvals (primme_set_method ext PRIMME_DYNAMIC q) = numEvals q
               \<and> eps (primme_set_method ext PRIMME_DYNAMIC q) = eps q
               \<and> target (primme_set_method ext PRIMME_DYNAMIC q) = target q) \<Longrightarrow>
           primme_n p = 100 \<and> numEvals p = 10 \<and> eps p = lit ar (1 / 10 ^ 9)
           \<and> target p = primme_smallest"
    using cfg by (simp add: p_def)
  show ?thesis
    unfolding Let_def cfg_def [symmetric] p_def [symmetric] r_def [symmetric]
    using cfg at_call first failed succeeded run kept by blast
qed

text \<open>
  With the library whose solver answers 1 on the reference problem and 2 otherwise,
  \<open>main\<close> prints the error line with status 1.
\<close>

theorem main_configures_reference_problem_witness:
  "primme_n (main_setup real_arith ext_probe) = 100
   \<and> numEvals (main_setup real_arith ext_probe) = 10
   \<and> eps (main_setup real_arith ext_probe) = 1 / 10 ^ 9
   \<and> target (main_setup real_arith ext_probe) = primme_smallest
   \<and> ret (dprimme ext_probe (main_setup real_arith ext_probe)) = 1
   \<and> printed (main real_arith ext_probe) =
       [DisplayParams (main_setup real_arith ext_probe), ErrorLine 1]
   \<and> exit_code (main real_arith ext_probe) = - 1"
proof -
  have keep: "\<forall>q. primme_n (primme_set_method ext_probe PRIMME_DYNAMIC q) = primme_n q
            \<and> numEvals (primme_set_method ext_probe PRIMME_DYNAMIC q) = numEvals q
            \<and> eps (primme_set_method ext_probe PRIMME_DYNAMIC q) = eps q
            \<and> target (primme_set_method ext_probe PRIMME_DYNAMIC q) = target q"
    by (simp add: ext_probe_def set_method_example_def)
  note t = main_configures_reference_problem [of real_arith ext_probe, unfolded Let_def]
  have s: "main_setup real_arith ext_probe
             = primme_set_method ext_probe PRIMME_DYNAMIC (main_config real_arith ext_probe)"
    using t by blast
  have fields: "primme_n (main_setup real_arith ext_probe) = 100"
     "numEvals (main_setup real_arith ext_probe) = 10"
     "eps (main_setup real_arith ext_probe) = 1 / 10 ^ 9"
     "target (main_setup real_arith ext_probe) = primme_smallest"
    using t keep by (simp_all add: s real_arith_def of_rat_divide of_rat_power)
  have d: "dprimme ext_probe = probe" by (simp add: ext_probe_def)
  have r: "ret (dprimme ext_probe (main_setup real_arith ext_probe)) = 1"
    using fields by (simp add: d probe_def)
  have "ret (dprimme ext_probe (main_setup real_arith ext_probe)) \<noteq> 0 \<longrightarrow>
          printed (main real_arith ext_probe) =
            [DisplayParams (main_setup real_arith ext_probe),
             ErrorLine (ret (dprimme ext_probe (main_setup real_arith ext_probe)))]
          \<and> exit_code (main real_arith ext_probe) = - 1"
    using t unfolding s [symmetric] by blast
  then have "printed (main real_arith ext_probe) =
          [DisplayParams (main_setup real_arith ext_probe), ErrorLine 1]
        \<and> exit_code (main real_arith ext_probe) = - 1"
    by (simp add: r)
  then show ?thesis using fields r by simp
qed

end
